theory Spec2Isabelle
  imports Complex_Main
begin

section \<open>Detectors of LightWave2D (src/LightWave2D/detector.py)\<close>

text \<open>
  The module defines two passive probes, \<open>PointDetector\<close> and \<open>CircularDetector\<close>.
  Both ask a \<open>Grid\<close> for grid indices once, at construction, and later slice a field
  history tensor (time, row, column) handed to \<open>update_data\<close>.

  Python exceptions are values of \<open>error\<close>; a method that can raise returns
  \<open>error + result\<close>. Mutation of \<open>self\<close> is explicit: a method returns the object
  after the call.
\<close>

subsection \<open>Errors and arrays\<close>

datatype error =
    OutOfBounds      \<comment> \<open>raised by \<open>Grid.get_coordinate\<close>\<close>
  | GridError string \<comment> \<open>any other failure of the Grid\<close>
  | IndexError       \<comment> \<open>numpy: index or boolean mask does not fit the array\<close>
  | AttributeError   \<comment> \<open>a dataclass field declared \<open>field(init=False)\<close> and never assigned\<close>
  | ValueError       \<comment> \<open>a slice with step 0\<close>
  | CvError          \<comment> \<open>\<open>cv2.error\<close>: a failed assertion inside OpenCV\<close>

text \<open>
  A numpy array is its shape and its elements in C order (row-major), which is how
  numpy enumerates elements in \<open>argwhere\<close> and in boolean-mask indexing.
\<close>

record 'a ndarray2 =
  n_rows :: nat
  n_cols :: nat
  cells :: "'a list"

record 'a ndarray3 =
  n_time :: nat
  f_rows :: nat
  f_cols :: nat
  f_cells :: "'a list"

definition wf2 :: "'a ndarray2 \<Rightarrow> bool" where
  "wf2 a = (length (cells a) = n_rows a * n_cols a)"

definition wf3 :: "'a ndarray3 \<Rightarrow> bool" where
  "wf3 f = (length (f_cells f) = n_time f * (f_rows f * f_cols f))"

definition at2 :: "'a ndarray2 \<Rightarrow> nat \<Rightarrow> nat \<Rightarrow> 'a" where
  \<comment> \<open>\<open>a[i, j]\<close> for indices in range\<close>
  "at2 a i j = cells a ! (i * n_cols a + j)"

definition at3 :: "'a ndarray3 \<Rightarrow> nat \<Rightarrow> nat \<Rightarrow> nat \<Rightarrow> 'a" where
  \<comment> \<open>\<open>field[t, r, c]\<close> for indices in range\<close>
  "at3 f t r c = f_cells f ! (t * (f_rows f * f_cols f) + (r * f_cols f + c))"

definition np_index :: "nat \<Rightarrow> int \<Rightarrow> error + nat" where
  \<comment> \<open>an integer index along an axis of length \<open>n\<close>: negative indices count from the
      end, anything outside \<open>[-n, n)\<close> raises IndexError\<close>
  "np_index n i =
     (if 0 \<le> i \<and> i < int n then Inr (nat i)
      else if - int n \<le> i \<and> i < 0 then Inr (nat (i + int n))
      else Inl IndexError)"

definition np_zeros :: "nat \<Rightarrow> 'a::zero list" where
  "np_zeros n = replicate n 0"

subsection \<open>The Grid collaborator\<close>

text \<open>
  \<open>LightWave2D.grid.Grid\<close> is imported by the module. The detectors use four of its
  members: \<open>get_coordinate(x=, y=)\<close>, \<open>shape\<close>, \<open>n_steps\<close> and \<open>time_stamp\<close>; the value
  returned by \<open>get_coordinate\<close> is read through \<open>x\<close>, \<open>y\<close>, \<open>x_index\<close> and \<open>y_index\<close>.
  The Grid is a parameter of the model: a record holding these members, with
  \<open>get_coordinate\<close> an arbitrary function that may fail.
\<close>

datatype coord = Num real | Sym string   \<comment> \<open>\<open>float | str\<close>\<close>

record resolved =
  x_coord :: real   \<comment> \<open>\<open>.x\<close>\<close>
  y_coord :: real   \<comment> \<open>\<open>.y\<close>\<close>
  x_index :: int
  y_index :: int

record Grid =
  shape :: "nat \<times> nat"
  n_steps :: nat
  time_stamp :: "real list"
  get_coordinate :: "coord \<Rightarrow> coord \<Rightarrow> error + resolved"

subsection \<open>PointDetector\<close>

record 'a PointDetector =
  pd_grid :: Grid
  pd_position :: resolved
  pd_data :: "'a list"

definition PointDetector_post_init ::
  "Grid \<Rightarrow> coord \<times> coord \<Rightarrow> error + ('a::zero) PointDetector" where
  "PointDetector_post_init g position =
     (case get_coordinate g (fst position) (snd position) of
        Inl e \<Rightarrow> Inl e
      | Inr p \<Rightarrow> Inr \<lparr>pd_grid = g, pd_position = p, pd_data = np_zeros (n_steps g)\<rparr>)"

definition PointDetector_update_data ::
  "'a PointDetector \<Rightarrow> 'a ndarray3 \<Rightarrow> error + 'a PointDetector" where
  \<comment> \<open>\<open>self.data = field[:, self.position.x_index, self.position.y_index]\<close>\<close>
  "PointDetector_update_data d field =
     (case np_index (f_rows field) (x_index (pd_position d)) of
        Inl e \<Rightarrow> Inl e
      | Inr r \<Rightarrow>
          (case np_index (f_cols field) (y_index (pd_position d)) of
             Inl e \<Rightarrow> Inl e
           | Inr c \<Rightarrow>
               Inr (d\<lparr>pd_data := map (\<lambda>t. at3 field t r c) [0..<n_time field]\<rparr>)))"

text \<open>
  The plotting methods hand draw commands to a rendering target (\<open>SceneList\<close>, \<open>Axis\<close>
  of MPSPlots). The target is modelled as the list of commands it received.
\<close>

datatype 'a aggregate = Scalar 'a | Vector "'a list"   \<comment> \<open>a 0-d or a 1-d array\<close>

datatype 'a artist =
    AddLine "real list" "'a list"                \<comment> \<open>\<open>add_line(x, y)\<close>\<close>
  | AddScatter "real list" "'a aggregate"        \<comment> \<open>\<open>add_scatter(x, y)\<close> on a polar axis\<close>
  | AddMarker real real                          \<comment> \<open>\<open>add_scatter(x, y, marker_size=20)\<close>\<close>
  | AddCircle real real real                     \<comment> \<open>\<open>add_circle(position, radius)\<close>\<close>

definition PointDetector_plot_data ::
  "'a PointDetector \<Rightarrow> 'a artist list \<times> 'a PointDetector" where
  "PointDetector_plot_data d = ([AddLine (time_stamp (pd_grid d)) (pd_data d)], d)"

definition PointDetector_add_to_ax ::
  "'a PointDetector \<Rightarrow> 'a artist list \<Rightarrow> 'a artist list \<times> 'a PointDetector" where
  "PointDetector_add_to_ax d ax =
     (ax @ [AddMarker (x_coord (pd_position d)) (y_coord (pd_position d))], d)"

subsection \<open>numpy operations used by CircularDetector\<close>

definition np_zeros2 :: "nat \<times> nat \<Rightarrow> nat ndarray2" where
  \<comment> \<open>\<open>numpy.zeros(shape=..., dtype=numpy.uint8)\<close>\<close>
  "np_zeros2 s = \<lparr>n_rows = fst s, n_cols = snd s, cells = replicate (fst s * snd s) 0\<rparr>"

definition elementwise :: "('a \<Rightarrow> 'b) \<Rightarrow> 'a ndarray2 \<Rightarrow> 'b ndarray2" where
  "elementwise f a = \<lparr>n_rows = n_rows a, n_cols = n_cols a, cells = map f (cells a)\<rparr>"

definition astype_bool :: "nat ndarray2 \<Rightarrow> bool ndarray2" where
  \<comment> \<open>\<open>a.astype(bool)\<close>: nonzero becomes True\<close>
  "astype_bool a = elementwise (\<lambda>v. v \<noteq> 0) a"

definition eq_one :: "bool ndarray2 \<Rightarrow> bool ndarray2" where
  \<comment> \<open>\<open>a == 1\<close> on a boolean array: True counts as 1\<close>
  "eq_one a = elementwise (\<lambda>b. (if b then 1 else 0) = (1::int)) a"

definition ne_zero :: "bool ndarray2 \<Rightarrow> bool ndarray2" where
  \<comment> \<open>\<open>a != 0\<close> on a boolean array\<close>
  "ne_zero a = elementwise (\<lambda>b. (if b then 1 else 0) \<noteq> (0::int)) a"

definition true_positions :: "bool ndarray2 \<Rightarrow> nat list" where
  \<comment> \<open>the flat C-order positions of the True elements, ascending\<close>
  "true_positions a = filter (\<lambda>k. cells a ! k) [0..<length (cells a)]"

definition argwhere :: "bool ndarray2 \<Rightarrow> (int \<times> int) list" where
  \<comment> \<open>\<open>numpy.argwhere(a)\<close>: one (row, column) pair per True element, in C order\<close>
  "argwhere a =
     map (\<lambda>k. (int (k div n_cols a), int (k mod n_cols a))) (true_positions a)"

definition transpose_pairs :: "('a \<times> 'b) list \<Rightarrow> 'a list \<times> 'b list" where
  \<comment> \<open>\<open>.T\<close> of an (M, 2) array: row 0 holds the first components, row 1 the second\<close>
  "transpose_pairs ps = (map fst ps, map snd ps)"

definition arctan2 :: "real \<Rightarrow> real \<Rightarrow> real" where
  \<comment> \<open>the two-argument arctangent, over the reals\<close>
  "arctan2 v u =
     (if 0 < u then arctan (v / u)
      else if u < 0 then (if 0 \<le> v then arctan (v / u) + pi else arctan (v / u) - pi)
      else if 0 < v then pi / 2
      else if v < 0 then - (pi / 2)
      else 0)"

definition np_arctan2 :: "int list \<Rightarrow> int list \<Rightarrow> real list" where
  \<comment> \<open>\<open>numpy.arctan2(a, b)\<close> on two integer vectors of equal length, elementwise\<close>
  "np_arctan2 vs us = map (\<lambda>(v, u). arctan2 (real_of_int v) (real_of_int u)) (zip vs us)"

definition np_mask_index :: "'a ndarray3 \<Rightarrow> bool ndarray2 \<Rightarrow> error + 'a ndarray2" where
  \<comment> \<open>\<open>field[:, m]\<close> with a 2-d boolean \<open>m\<close>: the mask must have the shape of the last
      two axes; the result keeps the time axis and lists, per time entry, the elements
      at the True positions of \<open>m\<close> in C order\<close>
  "np_mask_index field m =
     (if f_rows field \<noteq> n_rows m \<or> f_cols field \<noteq> n_cols m then Inl IndexError
      else Inr \<lparr>n_rows = n_time field,
                n_cols = length (true_positions m),
                cells = concat (map (\<lambda>t. map (\<lambda>k. f_cells field ! (t * (f_rows field * f_cols field) + k))
                                              (true_positions m))
                                    [0..<n_time field])\<rparr>)"

datatype slc = Index int | Slice "int option" "int option" "int option"
  \<comment> \<open>\<open>int | slice\<close>; a slice is (start, stop, step), each possibly None\<close>

definition slice_indices :: "nat \<Rightarrow> int option \<Rightarrow> int option \<Rightarrow> int option \<Rightarrow> error + nat list" where
  \<comment> \<open>the positions a slice selects along an axis of length \<open>n\<close> (Python's
      \<open>slice.indices\<close> followed by \<open>range\<close>)\<close>
  "slice_indices n start stop step =
     (let len = int n; st = (case step of None \<Rightarrow> 1 | Some s \<Rightarrow> s) in
      if st = 0 then Inl ValueError
      else
        let lower = (if 0 < st then 0 else - 1);
            upper = (if 0 < st then len else len - 1);
            a = (case start of
                   None \<Rightarrow> (if 0 < st then lower else upper)
                 | Some s \<Rightarrow> (if s < 0 then max (s + len) lower else min s upper));
            b = (case stop of
                   None \<Rightarrow> (if 0 < st then upper else lower)
                 | Some s \<Rightarrow> (if s < 0 then max (s + len) lower else min s upper));
            cnt = (if 0 < st then (if a < b then (b - a - 1) div st + 1 else 0)
                   else (if b < a then (a - b - 1) div (- st) + 1 else 0))
        in Inr (map (\<lambda>k. nat (a + int k * st)) [0..<nat cnt]))"

definition row_of :: "'a ndarray2 \<Rightarrow> nat \<Rightarrow> 'a list" where
  \<comment> \<open>\<open>a[i]\<close> for \<open>i\<close> in range: the 1-d array of row \<open>i\<close>\<close>
  "row_of a i = map (\<lambda>j. at2 a i j) [0..<n_cols a]"

definition abs_sum_axis0 :: "('a::{abs,monoid_add}) ndarray2 \<Rightarrow> slc \<Rightarrow> error + 'a aggregate" where
  \<comment> \<open>\<open>abs(a[slc]).sum(axis=0)\<close>. An integer \<open>slc\<close> selects one row, a 1-d array, and
      \<open>sum(axis=0)\<close> adds up its elements to a 0-d result. A slice selects rows and keeps
      the array 2-d, and \<open>sum(axis=0)\<close> adds the rows up, column by column.\<close>
  "abs_sum_axis0 a s =
     (case s of
        Index i \<Rightarrow>
          (case np_index (n_rows a) i of
             Inl e \<Rightarrow> Inl e
           | Inr r \<Rightarrow> Inr (Scalar (sum_list (map abs (row_of a r)))))
      | Slice start stop step \<Rightarrow>
          (case slice_indices (n_rows a) start stop step of
             Inl e \<Rightarrow> Inl e
           | Inr ts \<Rightarrow>
               Inr (Vector (map (\<lambda>j. sum_list (map (\<lambda>t. abs (at2 a t j)) ts))
                                [0..<n_cols a]))))"

subsection \<open>The rasterizer\<close>

text \<open>
  \<open>cv2.ellipse(img, center, axes, angle, startAngle, endAngle, color)\<close> is OpenCV's
  drawing routine. The module calls it with \<open>angle = 0\<close>, \<open>startAngle = 0\<close>,
  \<open>endAngle = 360\<close> and without \<open>thickness\<close>, whose default is 1: OpenCV then draws the
  outline of the ellipse, one pixel wide (a filled ellipse needs a negative thickness,
  \<open>cv2.FILLED\<close>). \<open>center\<close> is (column, row) and \<open>axes\<close> is (half width along the
  columns, half height along the rows); pixels outside the image are clipped; negative
  axes fail an assertion.

  OpenCV computes the outline in floating point, as a polyline through points of the
  ellipse. The model below is the same contract in integer arithmetic: the region is
  the set of cells whose offset from the centre satisfies the ellipse inequality, and
  the outline is the set of cells of the region that have one of their four neighbours
  outside it. Individual pixels near the curve may differ from OpenCV's.
\<close>

definition inside_ellipse :: "int \<Rightarrow> int \<Rightarrow> int \<Rightarrow> int \<Rightarrow> bool" where
  \<comment> \<open>offset \<open>(dx, dy)\<close> lies in the ellipse with half width \<open>a\<close> and half height \<open>b\<close>\<close>
  "inside_ellipse a b dx dy =
     (if a = 0 then dx = 0 \<and> \<bar>dy\<bar> \<le> b
      else if b = 0 then dy = 0 \<and> \<bar>dx\<bar> \<le> a
      else dx * dx * (b * b) + dy * dy * (a * a) \<le> a * a * (b * b))"

definition on_outline :: "int \<Rightarrow> int \<Rightarrow> int \<Rightarrow> int \<Rightarrow> bool" where
  "on_outline a b dx dy =
     (inside_ellipse a b dx dy \<and>
      \<not> (inside_ellipse a b (dx + 1) dy \<and> inside_ellipse a b (dx - 1) dy \<and>
         inside_ellipse a b dx (dy + 1) \<and> inside_ellipse a b dx (dy - 1)))"

definition cv2_ellipse ::
  "nat ndarray2 \<Rightarrow> int \<times> int \<Rightarrow> int \<times> int \<Rightarrow> nat \<Rightarrow> error + nat ndarray2" where
  \<comment> \<open>\<open>cv2.ellipse(img, center, axes, 0, 0, 360, color)\<close>, thickness 1\<close>
  "cv2_ellipse img center axes color =
     (if fst axes < 0 \<or> snd axes < 0 then Inl CvError
      else Inr (img\<lparr>cells :=
                  map (\<lambda>k. if on_outline (fst axes) (snd axes)
                                  (int (k mod n_cols img) - fst center)
                                  (int (k div n_cols img) - snd center)
                            then color else cells img ! k)
                      [0..<length (cells img)]\<rparr>))"

subsection \<open>CircularDetector\<close>

text \<open>
  \<open>data\<close> and \<open>object_idx\<close> are declared \<open>field(init=False)\<close> without a default, so
  the generated constructor leaves them unset. \<open>construct_object\<close> assigns \<open>object_idx\<close>,
  \<open>object_coordinate_index\<close> and \<open>angle_list\<close>; nothing assigns \<open>data\<close> before
  \<open>update_data\<close>. An unset attribute is \<open>None\<close> here; reading it raises AttributeError.
\<close>

text \<open>
  \<open>construct_object\<close> passes the centre to \<open>cv2.ellipse\<close> as
  \<open>(position.y_index, position.x_index)\<close>, so \<open>x_index\<close> is the row and \<open>y_index\<close> the
  column, as in \<open>field[:, x_index, y_index]\<close>; it passes the axes as
  \<open>(radius_indexes.x_index, radius_indexes.y_index)\<close>, so the radius resolved along x
  is the half width along the columns.
\<close>

record 'a CircularDetector =
  cd_grid :: Grid
  cd_position :: resolved
  cd_radius :: real
  cd_data :: "'a ndarray2 option"
  cd_object_idx :: "bool ndarray2"
  cd_object_coordinate_index :: "int list \<times> int list"
  cd_angle_list :: "real list"

definition construct_object ::
  "Grid \<Rightarrow> resolved \<Rightarrow> real \<Rightarrow>
     error + (bool ndarray2 \<times> (int list \<times> int list) \<times> real list)" where
  "construct_object g position radius =
     (case get_coordinate g (Num radius) (Num radius) of
        Inl e \<Rightarrow> Inl e
      | Inr radius_indexes \<Rightarrow>
          (case cv2_ellipse (np_zeros2 (shape g))
                  (y_index position, x_index position)
                  (x_index radius_indexes, y_index radius_indexes)
                  255 of
             Inl e \<Rightarrow> Inl e
           | Inr img \<Rightarrow>
               let object_idx = astype_bool img;
                   object_coordinate_index = transpose_pairs (argwhere (eq_one object_idx));
                   angle_list =
                     np_arctan2
                       (map (\<lambda>r. r - x_index position) (fst object_coordinate_index))
                       (map (\<lambda>c. c - y_index position) (snd object_coordinate_index))
               in Inr (object_idx, object_coordinate_index, angle_list)))"

definition CircularDetector_post_init ::
  "Grid \<Rightarrow> coord \<times> coord \<Rightarrow> real \<Rightarrow> error + 'a CircularDetector" where
  "CircularDetector_post_init g position radius =
     (case get_coordinate g (fst position) (snd position) of
        Inl e \<Rightarrow> Inl e
      | Inr p \<Rightarrow>
          (case construct_object g p radius of
             Inl e \<Rightarrow> Inl e
           | Inr (object_idx, object_coordinate_index, angle_list) \<Rightarrow>
               Inr \<lparr>cd_grid = g, cd_position = p, cd_radius = radius, cd_data = None,
                    cd_object_idx = object_idx,
                    cd_object_coordinate_index = object_coordinate_index,
                    cd_angle_list = angle_list\<rparr>))"

definition CircularDetector_update_data ::
  "'a CircularDetector \<Rightarrow> 'a ndarray3 \<Rightarrow> error + 'a CircularDetector" where
  \<comment> \<open>\<open>self.data = field[:, self.object_idx != 0]\<close>\<close>
  "CircularDetector_update_data d field =
     (case np_mask_index field (ne_zero (cd_object_idx d)) of
        Inl e \<Rightarrow> Inl e
      | Inr a \<Rightarrow> Inr (d\<lparr>cd_data := Some a\<rparr>))"

definition CircularDetector_plot_data ::
  "('a::{abs,monoid_add}) CircularDetector \<Rightarrow> slc \<Rightarrow>
     error + ('a artist list \<times> 'a CircularDetector)" where
  "CircularDetector_plot_data d s =
     (case cd_data d of
        None \<Rightarrow> Inl AttributeError
      | Some a \<Rightarrow>
          (case abs_sum_axis0 a s of
             Inl e \<Rightarrow> Inl e
           | Inr data \<Rightarrow> Inr ([AddScatter (cd_angle_list d) data], d)))"

definition CircularDetector_add_to_ax ::
  "'a CircularDetector \<Rightarrow> 'a artist list \<Rightarrow> 'a artist list \<times> 'a CircularDetector" where
  "CircularDetector_add_to_ax d ax =
     (ax @ [AddCircle (x_coord (cd_position d)) (y_coord (cd_position d)) (cd_radius d)], d)"

definition CircularDetector_plot ::
  "'a CircularDetector \<Rightarrow> 'a artist list \<times> 'a CircularDetector" where
  "CircularDetector_plot d = CircularDetector_add_to_ax d []"

subsection \<open>Grids for concrete runs\<close>

text \<open>
  \<open>square_grid n\<close> has \<open>n\<close> rows and \<open>n\<close> columns of unit pitch and three time steps:
  position \<open>v\<close> resolves to index \<open>\<lfloor>v\<rfloor>\<close>, \<open>center\<close> to the middle cell, and anything
  outside \<open>[0, n)\<close> is out of bounds.
\<close>

definition resolve_axis :: "nat \<Rightarrow> coord \<Rightarrow> error + (real \<times> int)" where
  "resolve_axis n c =
     (case c of
        Num v \<Rightarrow> (if 0 \<le> v \<and> v < real n then Inr (v, \<lfloor>v\<rfloor>) else Inl OutOfBounds)
      | Sym s \<Rightarrow> (if s = ''center'' then Inr (real (n div 2), int (n div 2))
                  else Inl OutOfBounds))"

definition square_grid :: "nat \<Rightarrow> Grid" where
  "square_grid n =
     \<lparr>shape = (n, n), n_steps = 3, time_stamp = [0, 1, 2],
      get_coordinate = (\<lambda>cx cy.
        case resolve_axis n cx of
          Inl e \<Rightarrow> Inl e
        | Inr (vx, ix) \<Rightarrow>
            (case resolve_axis n cy of
               Inl e \<Rightarrow> Inl e
             | Inr (vy, iy) \<Rightarrow>
                 Inr \<lparr>x_coord = vx, y_coord = vy, x_index = ix, y_index = iy\<rparr>))\<rparr>"

definition ramp_field :: "nat \<Rightarrow> nat \<Rightarrow> int ndarray3" where
  \<comment> \<open>\<open>T\<close> time entries over an \<open>n\<close> by \<open>n\<close> grid, holding 0, 1, 2, ... in C order\<close>
  "ramp_field T n =
     \<lparr>n_time = T, f_rows = n, f_cols = n, f_cells = map int [0..<T * (n * n)]\<rparr>"

definition pd_example :: "int PointDetector" where
  \<comment> \<open>the PointDetector built on \<open>square_grid 3\<close> at position (1, 2)\<close>
  "pd_example =
     \<lparr>pd_grid = square_grid 3,
      pd_position = \<lparr>x_coord = 1, y_coord = 2, x_index = 1, y_index = 2\<rparr>,
      pd_data = [0, 0, 0]\<rparr>"

definition ring3 :: "int CircularDetector" where
  \<comment> \<open>the CircularDetector built on \<open>square_grid 3\<close> at position (1, 1) with radius 1\<close>
  "ring3 =
     \<lparr>cd_grid = square_grid 3,
      cd_position = \<lparr>x_coord = 1, y_coord = 1, x_index = 1, y_index = 1\<rparr>,
      cd_radius = 1, cd_data = None,
      cd_object_idx =
        \<lparr>n_rows = 3, n_cols = 3,
         cells = [False, True, False, True, False, True, False, True, False]\<rparr>,
      cd_object_coordinate_index = ([0, 1, 1, 2], [1, 0, 2, 1]),
      cd_angle_list = [- (pi / 2), pi, 0, pi / 2]\<rparr>"

definition wave_field :: "int ndarray3" where
  \<comment> \<open>two time entries over a 3 by 3 grid\<close>
  "wave_field =
     \<lparr>n_time = 2, f_rows = 3, f_cols = 3,
      f_cells = [0, 1, 0, - 2, 0, 3, 0, - 4, 0,
                 0, 5, 0, - 6, 0, 7, 0, - 8, 0]\<rparr>"

definition ring3_updated :: "int CircularDetector" where
  \<comment> \<open>\<open>ring3\<close> after \<open>update_data(wave_field)\<close>\<close>
  "ring3_updated =
     ring3\<lparr>cd_data := Some \<lparr>n_rows = 2, n_cols = 4, cells = [1, - 2, 3, - 4, 5, - 6, 7, - 8]\<rparr>\<rparr>"







section \<open>Auxiliary facts\<close>

lemma nth_concat_uniform:
  "\<forall>x \<in> set xss. length x = n \<Longrightarrow> i < length xss \<Longrightarrow> j < n \<Longrightarrow>
     concat xss ! (i * n + j) = xss ! i ! j"
proof (induction xss arbitrary: i)
  case Nil
  then show ?case by simp
next
  case (Cons x xss)
  show ?case
  proof (cases i)
    case 0
    with Cons.prems show ?thesis by (simp add: nth_append)
  next
    case (Suc k)
    with Cons.prems have "concat xss ! (k * n + j) = xss ! k ! j"
      by (intro Cons.IH) auto
    moreover have "length x = n" using Cons.prems by simp
    ultimately show ?thesis using Suc by (simp add: nth_append)
  qed
qed

lemma length_concat_uniform:
  "\<forall>x \<in> set xss. length x = n \<Longrightarrow> length (concat xss) = length xss * n"
  by (induction xss) auto

lemma eq_one_id: "eq_one a = a"
  by (cases a) (simp add: eq_one_def elementwise_def map_idI)

lemma ne_zero_id: "ne_zero a = a"
  by (cases a) (simp add: ne_zero_def elementwise_def map_idI)

lemma length_true_positions:
  "length (true_positions a) = length (filter id (cells a))"
proof -
  have "length (filter (\<lambda>k. xs ! k) [0..<length xs]) = length (filter id xs)" for xs :: "bool list"
  proof (induction xs rule: rev_induct)
    case Nil
    then show ?case by simp
  next
    case (snoc x xs)
    have "filter (\<lambda>k. (xs @ [x]) ! k) [0..<length xs] = filter (\<lambda>k. xs ! k) [0..<length xs]"
      by (rule filter_cong) (auto simp: nth_append)
    with snoc show ?case by (simp add: nth_append)
  qed
  then show ?thesis by (simp add: true_positions_def)
qed

lemma true_positions_bound: "k \<in> set (true_positions a) \<Longrightarrow> k < length (cells a)"
  by (auto simp: true_positions_def)

lemma cv2_ellipse_shape:
  "cv2_ellipse img c ax col = Inr out \<Longrightarrow>
     n_rows out = n_rows img \<and> n_cols out = n_cols img \<and> length (cells out) = length (cells img)"
  by (auto simp: cv2_ellipse_def split: if_splits)

lemma post_init_geometry:
  assumes "CircularDetector_post_init g position radius = Inr d"
  shows "\<exists>p ri img.
           get_coordinate g (fst position) (snd position) = Inr p \<and>
           get_coordinate g (Num radius) (Num radius) = Inr ri \<and>
           cv2_ellipse (np_zeros2 (shape g)) (y_index p, x_index p) (x_index ri, y_index ri) 255 = Inr img \<and>
           cd_grid d = g \<and> cd_position d = p \<and> cd_radius d = radius \<and> cd_data d = None \<and>
           cd_object_idx d = astype_bool img \<and>
           cd_object_coordinate_index d = transpose_pairs (argwhere (cd_object_idx d)) \<and>
           cd_angle_list d =
             np_arctan2 (map (\<lambda>r. r - x_index p) (fst (cd_object_coordinate_index d)))
                        (map (\<lambda>c. c - y_index p) (snd (cd_object_coordinate_index d)))"
  using assms
  by (auto simp: CircularDetector_post_init_def construct_object_def Let_def eq_one_id
           split: sum.splits prod.splits)

lemma post_init_mask_shape:
  assumes "CircularDetector_post_init g position radius = Inr d"
  shows "n_rows (cd_object_idx d) = fst (shape g) \<and> n_cols (cd_object_idx d) = snd (shape g) \<and>
         wf2 (cd_object_idx d)"
proof -
  from post_init_geometry[OF assms] obtain p ri :: resolved and img where
    img: "cv2_ellipse (np_zeros2 (shape g)) (y_index p, x_index p) (x_index ri, y_index ri) 255 = Inr img"
    and m: "cd_object_idx d = astype_bool img" by blast
  from cv2_ellipse_shape[OF img] show ?thesis
    by (simp add: m astype_bool_def elementwise_def np_zeros2_def wf2_def)
qed









lemma point_update_frame:
  "PointDetector_update_data pd field = Inr pd' \<Longrightarrow>
     pd_grid pd' = pd_grid pd \<and> pd_position pd' = pd_position pd"
  by (auto simp: PointDetector_update_data_def split: sum.splits)

lemma circular_update_frame:
  "CircularDetector_update_data cd field = Inr cd' \<Longrightarrow>
      cd_grid cd' = cd_grid cd \<and> cd_position cd' = cd_position cd \<and>
      cd_radius cd' = cd_radius cd \<and> cd_object_idx cd' = cd_object_idx cd \<and>
      cd_object_coordinate_index cd' = cd_object_coordinate_index cd \<and>
      cd_angle_list cd' = cd_angle_list cd"
  by (auto simp: CircularDetector_update_data_def split: sum.splits)

lemma circular_plot_data_frame:
  "CircularDetector_plot_data cd s = Inr (scene, cd'') \<Longrightarrow> cd'' = cd"
  by (auto simp: CircularDetector_plot_data_def split: sum.splits option.splits)

lemma readers_frame:
  "snd (PointDetector_plot_data pd) = pd"
  "snd (PointDetector_add_to_ax pd ax) = pd"
  "snd (CircularDetector_plot cd) = cd"
  "snd (CircularDetector_add_to_ax cd ax') = cd"
  by (simp_all add: PointDetector_plot_data_def PointDetector_add_to_ax_def
      CircularDetector_plot_def CircularDetector_add_to_ax_def)


subsection \<open>The outline of an ellipse\<close>


















subsection \<open>Concrete runs\<close>

lemma upt_9: "[0..<9] = [0, 1, 2, 3, 4, 5, 6, 7, 8]"
  by (simp add: upt_rec)

lemma get_coordinate_3_11:
  "get_coordinate (square_grid 3) (Num 1) (Num 1) =
     Inr \<lparr>x_coord = 1, y_coord = 1, x_index = 1, y_index = 1\<rparr>"
  by (simp add: square_grid_def resolve_axis_def)

lemma get_coordinate_3_12:
  "get_coordinate (square_grid 3) (Num 1) (Num 2) =
     Inr \<lparr>x_coord = 1, y_coord = 2, x_index = 1, y_index = 2\<rparr>"
  by (simp add: square_grid_def resolve_axis_def)


lemma square_grid_members:
  "shape (square_grid n) = (n, n)" "n_steps (square_grid n) = 3"
  by (simp_all add: square_grid_def)

lemma pd_example_init:
  "PointDetector_post_init (square_grid 3) (Num 1, Num 2) = Inr pd_example"
proof -
  have "replicate 3 (0::int) = [0, 0, 0]"
    by (simp add: numeral_3_eq_3)
  then show ?thesis
    by (simp add: PointDetector_post_init_def get_coordinate_3_12 square_grid_members
        np_zeros_def pd_example_def)
qed

lemma cv2_ellipse_3:
  "cv2_ellipse (np_zeros2 (3, 3)) (1, 1) (1, 1) 255 =
     Inr \<lparr>n_rows = 3, n_cols = 3, cells = [0, 255, 0, 255, 0, 255, 0, 255, 0]\<rparr>"
  by (simp add: cv2_ellipse_def np_zeros2_def on_outline_def inside_ellipse_def upt_9)

lemma construct_object_3:
  "construct_object (square_grid 3) \<lparr>x_coord = 1, y_coord = 1, x_index = 1, y_index = 1\<rparr> 1 =
     Inr (cd_object_idx ring3, cd_object_coordinate_index ring3, cd_angle_list ring3)"
  by (simp add: construct_object_def get_coordinate_3_11 square_grid_members cv2_ellipse_3
      astype_bool_def eq_one_def elementwise_def argwhere_def true_positions_def
      transpose_pairs_def np_arctan2_def arctan2_def upt_9 ring3_def)

lemma ring3_init:
  "CircularDetector_post_init (square_grid 3) (Num 1, Num 1) 1 = Inr ring3"
  by (simp add: CircularDetector_post_init_def construct_object_3 get_coordinate_3_11 ring3_def)

lemma ramp_field_members:
  "n_time (ramp_field T n) = T" "f_rows (ramp_field T n) = n" "f_cols (ramp_field T n) = n"
  by (simp_all add: ramp_field_def)

lemma upt_small: "[0..<2] = [0, 1]" "[0..<4] = [0, 1, 2, 3]"
  by (simp_all add: upt_rec)

lemma ring3_update_wave:
  "CircularDetector_update_data ring3 wave_field = Inr ring3_updated"
  by (simp add: CircularDetector_update_data_def np_mask_index_def ne_zero_def elementwise_def
      true_positions_def ring3_def ring3_updated_def wave_field_def upt_small upt_9)

lemma ring3_updated_plot_index:
  "CircularDetector_plot_data ring3_updated (Index (- 1)) =
     Inr ([AddScatter (cd_angle_list ring3) (Scalar 26)], ring3_updated)"
  by (simp add: CircularDetector_plot_data_def abs_sum_axis0_def np_index_def row_of_def at2_def
      ring3_updated_def ring3_def upt_small)

lemma ring3_updated_plot_slice:
  "CircularDetector_plot_data ring3_updated (Slice None None None) =
     Inr ([AddScatter (cd_angle_list ring3) (Vector [6, 8, 10, 12])], ring3_updated)"
  by (simp add: CircularDetector_plot_data_def abs_sum_axis0_def slice_indices_def at2_def
      ring3_updated_def ring3_def upt_small Let_def)

lemma ring3_updated_plot_last_slice:
  "CircularDetector_plot_data ring3_updated (Slice (Some (- 1)) None None) =
     Inr ([AddScatter (cd_angle_list ring3) (Vector [5, 6, 7, 8])], ring3_updated)"
  by (simp add: CircularDetector_plot_data_def abs_sum_axis0_def slice_indices_def at2_def
      ring3_updated_def ring3_def upt_small Let_def)

lemma ring3_updated_update_wave:
  "CircularDetector_update_data ring3_updated wave_field = Inr ring3_updated"
  by (simp add: CircularDetector_update_data_def np_mask_index_def ne_zero_def elementwise_def
      true_positions_def ring3_def ring3_updated_def wave_field_def upt_small upt_9)

lemma pd_example_update:
  "PointDetector_update_data pd_example (ramp_field 2 3) = Inr (pd_example\<lparr>pd_data := [5, 14]\<rparr>)"
  by (simp add: PointDetector_update_data_def pd_example_def np_index_def at3_def
      ramp_field_def upt_small)







section \<open>Properties\<close>

text \<open>
  C1. For a CircularDetector as constructed (whatever its current \<open>data\<close>) and a field
  tensor whose spatial shape is the grid's shape, \<open>update_data\<close> succeeds and changes
  \<open>data\<close> only. The new \<open>data\<close> has shape (T, M), T the number of time entries and M
  the number of True cells of the mask; \<open>object_coordinate_index\<close> and \<open>angle_list\<close>
  have M entries too; and \<open>data[t, m]\<close> is the field value at time \<open>t\<close> at the
  \<open>m\<close>-th member coordinate.
\<close>

theorem C1_circular_update_gathers_members:
  assumes init: "CircularDetector_post_init g position radius = Inr d0"
    and shape: "(f_rows field, f_cols field) = shape g"
  shows "\<exists>a. CircularDetector_update_data (d0\<lparr>cd_data := old\<rparr>) field = Inr (d0\<lparr>cd_data := Some a\<rparr>) \<and>
           wf2 a \<and> n_rows a = n_time field \<and>
           n_cols a = length (filter id (cells (cd_object_idx d0))) \<and>
           length (fst (cd_object_coordinate_index d0)) = n_cols a \<and>
           length (snd (cd_object_coordinate_index d0)) = n_cols a \<and>
           length (cd_angle_list d0) = n_cols a \<and>
           (\<forall>t < n_time field. \<forall>m < n_cols a.
              at2 a t m =
                at3 field t (nat (fst (cd_object_coordinate_index d0) ! m))
                            (nat (snd (cd_object_coordinate_index d0) ! m)))"
proof -
  let ?mask = "cd_object_idx d0"
  let ?tp = "true_positions ?mask"
  let ?M = "length ?tp"
  let ?row = "\<lambda>t. map (\<lambda>k. f_cells field ! (t * (f_rows field * f_cols field) + k)) ?tp"
  let ?a = "\<lparr>n_rows = n_time field, n_cols = ?M, cells = concat (map ?row [0..<n_time field])\<rparr>"
  from post_init_mask_shape[OF init] shape
  have mr: "n_rows ?mask = f_rows field" and mc: "n_cols ?mask = f_cols field"
    by (metis fst_conv, metis snd_conv)
  from post_init_geometry[OF init]
  have oci: "cd_object_coordinate_index d0 = transpose_pairs (argwhere ?mask)"
    and ang: "cd_angle_list d0 =
       np_arctan2 (map (\<lambda>r. r - x_index (cd_position d0)) (fst (cd_object_coordinate_index d0)))
                  (map (\<lambda>c. c - y_index (cd_position d0)) (snd (cd_object_coordinate_index d0)))"
    by auto
  have upd: "CircularDetector_update_data (d0\<lparr>cd_data := old\<rparr>) field = Inr (d0\<lparr>cd_data := Some ?a\<rparr>)"
    by (simp add: CircularDetector_update_data_def np_mask_index_def ne_zero_id mr mc)
  have uni: "\<forall>x \<in> set (map ?row [0..<n_time field]). length x = ?M"
    by auto
  have wf: "wf2 ?a"
    using length_concat_uniform[OF uni] by (simp add: wf2_def)
  have l1: "length (fst (cd_object_coordinate_index d0)) = ?M"
    and l2: "length (snd (cd_object_coordinate_index d0)) = ?M"
    by (simp_all add: oci transpose_pairs_def argwhere_def)
  have l3: "length (cd_angle_list d0) = ?M"
    by (subst ang) (simp add: np_arctan2_def l1 l2)
  have elems: "at2 ?a t m =
       at3 field t (nat (fst (cd_object_coordinate_index d0) ! m))
                   (nat (snd (cd_object_coordinate_index d0) ! m))"
    if t: "t < n_time field" and m: "m < ?M" for t m
  proof -
    let ?k = "?tp ! m"
    have "concat (map ?row [0..<n_time field]) ! (t * ?M + m) = map ?row [0..<n_time field] ! t ! m"
      using t m by (intro nth_concat_uniform[OF uni]) simp_all
    also have "\<dots> = f_cells field ! (t * (f_rows field * f_cols field) + ?k)"
      using t m by simp
    finally have lhs: "at2 ?a t m = f_cells field ! (t * (f_rows field * f_cols field) + ?k)"
      by (simp add: at2_def)
    have "fst (cd_object_coordinate_index d0) ! m = int (?k div f_cols field)"
      and "snd (cd_object_coordinate_index d0) ! m = int (?k mod f_cols field)"
      using m by (simp_all add: oci transpose_pairs_def argwhere_def mc)
    then have rhs: "at3 field t (nat (fst (cd_object_coordinate_index d0) ! m))
                       (nat (snd (cd_object_coordinate_index d0) ! m)) =
                    f_cells field ! (t * (f_rows field * f_cols field) + ?k)"
      by (simp add: at3_def)
    from lhs rhs show ?thesis by simp
  qed
  show ?thesis
    apply (rule exI[of _ ?a])
    using upd wf l1 l2 l3 elems
    by (simp add: length_true_positions)
qed


theorem C1_witness:
  "CircularDetector_post_init (square_grid 3) (Num 1, Num 1) 1 = Inr ring3 \<and>
   (f_rows (ramp_field 2 3), f_cols (ramp_field 2 3)) = shape (square_grid 3) \<and>
   CircularDetector_update_data (ring3\<lparr>cd_data := None\<rparr>) (ramp_field 2 3) =
     Inr (ring3\<lparr>cd_data := Some \<lparr>n_rows = 2, n_cols = 4,
                                   cells = [1, 3, 5, 7, 10, 12, 14, 16]\<rparr>\<rparr>) \<and>
   at3 (ramp_field 2 3) 1 0 1 = 10 \<and> at3 (ramp_field 2 3) 1 2 1 = 16"
proof -
  have h: "CircularDetector_post_init (square_grid 3) (Num 1, Num 1) 1 = Inr ring3"
    "(f_rows (ramp_field 2 3), f_cols (ramp_field 2 3)) = shape (square_grid 3)"
    by (simp_all add: ring3_init ramp_field_members square_grid_members)
  have upt: "[0..<2] = [0, 1]" by (simp add: upt_rec)
  have run: "CircularDetector_update_data (ring3\<lparr>cd_data := None\<rparr>) (ramp_field 2 3) =
     Inr (ring3\<lparr>cd_data := Some \<lparr>n_rows = 2, n_cols = 4,
                                   cells = [1, 3, 5, 7, 10, 12, 14, 16]\<rparr>\<rparr>)"
    by (simp add: CircularDetector_update_data_def np_mask_index_def ne_zero_def elementwise_def
        true_positions_def ring3_def ramp_field_def upt upt_9)
  have vals: "at3 (ramp_field 2 3) 1 0 1 = 10" "at3 (ramp_field 2 3) 1 2 1 = 16"
    by (simp_all add: at3_def ramp_field_def)
  show ?thesis
    using h run vals C1_circular_update_gathers_members [OF h, of None] by simp
qed




text \<open>
  C3. For a PointDetector whose resolved index lies within the grid's shape and a field
  tensor whose spatial shape is the grid's shape, \<open>update_data\<close> succeeds; afterwards
  \<open>data\<close> has one entry per time entry of the tensor, entry \<open>t\<close> is the field value at
  time \<open>t\<close> at the detector's (row, column) index, and the previous \<open>data\<close> has no
  influence on the result (a replacement, not an append).
\<close>

theorem C3_point_update_slices_field:
  assumes shape: "(f_rows field, f_cols field) = shape (pd_grid d)"
    and xi: "0 \<le> x_index (pd_position d)" "x_index (pd_position d) < int (fst (shape (pd_grid d)))"
    and yi: "0 \<le> y_index (pd_position d)" "y_index (pd_position d) < int (snd (shape (pd_grid d)))"
  shows "\<exists>d'. PointDetector_update_data d field = Inr d' \<and>
           length (pd_data d') = n_time field \<and>
           (\<forall>t < n_time field.
              pd_data d' ! t =
                at3 field t (nat (x_index (pd_position d))) (nat (y_index (pd_position d)))) \<and>
           (\<forall>old. PointDetector_update_data (d\<lparr>pd_data := old\<rparr>) field = Inr d')"
proof -
  from shape have fr: "f_rows field = fst (shape (pd_grid d))"
    and fc: "f_cols field = snd (shape (pd_grid d))"
    by (metis fst_conv, metis snd_conv)
  have r: "np_index (f_rows field) (x_index (pd_position d)) = Inr (nat (x_index (pd_position d)))"
    using xi fr by (simp add: np_index_def)
  have c: "np_index (f_cols field) (y_index (pd_position d)) = Inr (nat (y_index (pd_position d)))"
    using yi fc by (simp add: np_index_def)
  show ?thesis
    by (simp add: PointDetector_update_data_def r c)
qed

theorem C3_witness:
  "(f_rows (ramp_field 2 3), f_cols (ramp_field 2 3)) = shape (pd_grid pd_example) \<and>
   0 \<le> x_index (pd_position pd_example) \<and>
   x_index (pd_position pd_example) < int (fst (shape (pd_grid pd_example))) \<and>
   0 \<le> y_index (pd_position pd_example) \<and>
   y_index (pd_position pd_example) < int (snd (shape (pd_grid pd_example))) \<and>
   PointDetector_update_data pd_example (ramp_field 2 3) = Inr (pd_example\<lparr>pd_data := [5, 14]\<rparr>) \<and>
   at3 (ramp_field 2 3) 0 1 2 = 5 \<and> at3 (ramp_field 2 3) 1 1 2 = 14"
proof -
  have h: "(f_rows (ramp_field 2 3), f_cols (ramp_field 2 3)) = shape (pd_grid pd_example)"
    "0 \<le> x_index (pd_position pd_example)"
    "x_index (pd_position pd_example) < int (fst (shape (pd_grid pd_example)))"
    "0 \<le> y_index (pd_position pd_example)"
    "y_index (pd_position pd_example) < int (snd (shape (pd_grid pd_example)))"
    by (simp_all add: pd_example_def ramp_field_members square_grid_members)
  have upt: "[0..<2] = [0, 1]" by (simp add: upt_rec)
  have run: "PointDetector_update_data pd_example (ramp_field 2 3) =
               Inr (pd_example\<lparr>pd_data := [5, 14]\<rparr>)"
    by (simp add: PointDetector_update_data_def pd_example_def np_index_def at3_def
        ramp_field_def upt)
  have vals: "at3 (ramp_field 2 3) 0 1 2 = 5" "at3 (ramp_field 2 3) 1 1 2 = 14"
    by (simp_all add: at3_def ramp_field_def)
  show ?thesis
    using h run vals C3_point_update_slices_field [OF h] by simp
qed

text \<open>
  C4. For a CircularDetector as constructed, \<open>angle_list\<close> and the two rows of
  \<open>object_coordinate_index\<close> have equal length, the coordinate pairs are the True cells
  of the mask in \<open>argwhere\<close> order, and the \<open>m\<close>-th angle is the two-argument arctangent
  of (row index minus \<open>position.x_index\<close>, column index minus \<open>position.y_index\<close>) of the
  \<open>m\<close>-th pair, in this argument order.
\<close>

theorem C4_angles_aligned_with_coordinates:
  assumes init: "CircularDetector_post_init g position radius = Inr d"
  shows "length (snd (cd_object_coordinate_index d)) = length (fst (cd_object_coordinate_index d)) \<and>
         length (cd_angle_list d) = length (fst (cd_object_coordinate_index d)) \<and>
         zip (fst (cd_object_coordinate_index d)) (snd (cd_object_coordinate_index d)) =
           argwhere (cd_object_idx d) \<and>
         (\<forall>m < length (cd_angle_list d).
            cd_angle_list d ! m =
              arctan2 (real_of_int (fst (cd_object_coordinate_index d) ! m - x_index (cd_position d)))
                      (real_of_int (snd (cd_object_coordinate_index d) ! m - y_index (cd_position d))))"
proof -
  from post_init_geometry[OF init]
  have oci: "cd_object_coordinate_index d = transpose_pairs (argwhere (cd_object_idx d))"
    and ang: "cd_angle_list d =
       np_arctan2 (map (\<lambda>r. r - x_index (cd_position d)) (fst (cd_object_coordinate_index d)))
                  (map (\<lambda>c. c - y_index (cd_position d)) (snd (cd_object_coordinate_index d)))"
    by auto
  have l: "length (snd (cd_object_coordinate_index d)) = length (fst (cd_object_coordinate_index d))"
    by (simp add: oci transpose_pairs_def)
  have la: "length (cd_angle_list d) = length (fst (cd_object_coordinate_index d))"
    by (subst ang) (simp add: np_arctan2_def l)
  have z: "zip (fst (cd_object_coordinate_index d)) (snd (cd_object_coordinate_index d)) =
           argwhere (cd_object_idx d)"
    by (simp add: oci transpose_pairs_def zip_map_fst_snd)
  have a: "cd_angle_list d ! m =
              arctan2 (real_of_int (fst (cd_object_coordinate_index d) ! m - x_index (cd_position d)))
                      (real_of_int (snd (cd_object_coordinate_index d) ! m - y_index (cd_position d)))"
    if "m < length (cd_angle_list d)" for m
    using that la l by (subst ang) (simp add: np_arctan2_def)
  from l la z a show ?thesis by blast
qed


theorem C4_witness:
  "CircularDetector_post_init (square_grid 3) (Num 1, Num 1) 1 = Inr ring3 \<and>
   cd_object_coordinate_index ring3 = ([0, 1, 1, 2], [1, 0, 2, 1]) \<and>
   cd_angle_list ring3 = [arctan2 (- 1) 0, arctan2 0 (- 1), arctan2 0 1, arctan2 1 0]"
proof -
  have h: "CircularDetector_post_init (square_grid 3) (Num 1, Num 1) 1 = Inr ring3"
    by (rule ring3_init)
  show ?thesis
    using h C4_angles_aligned_with_coordinates [OF h]
    by (simp add: ring3_def arctan2_def)
qed

text \<open>
  C5 (the code at its default selection). For the detector \<open>ring3\<close> holding two time
  entries of four member cells, \<open>[1, -2, 3, -4]\<close> and \<open>[5, -6, 7, -8]\<close>, \<open>plot_data\<close> with
  the default \<open>slc = -1\<close> hands the scatter a single number, 26, the sum of the absolute
  values of the last time entry over all member cells; with a slice selecting the same
  time entry it hands over the four absolute values, and with the full slice the four
  per-cell sums.
\<close>

theorem C5_default_index_sums_over_members:
  "CircularDetector_update_data ring3 wave_field = Inr ring3_updated \<and>
   CircularDetector_plot_data ring3_updated (Index (- 1)) =
     Inr ([AddScatter (cd_angle_list ring3) (Scalar 26)], ring3_updated) \<and>
   CircularDetector_plot_data ring3_updated (Slice (Some (- 1)) None None) =
     Inr ([AddScatter (cd_angle_list ring3) (Vector [5, 6, 7, 8])], ring3_updated) \<and>
   CircularDetector_plot_data ring3_updated (Slice None None None) =
     Inr ([AddScatter (cd_angle_list ring3) (Vector [6, 8, 10, 12])], ring3_updated)"
  using ring3_update_wave ring3_updated_plot_index ring3_updated_plot_last_slice
    ring3_updated_plot_slice
  by simp




text \<open>
  C7. \<open>update_data\<close> leaves grid, position, radius, mask, member coordinates and angles
  as they were; the plotting methods return the detector unchanged, \<open>data\<close> included.
\<close>

theorem C7_only_update_data_changes_data:
  "(PointDetector_update_data pd field = Inr pd' \<longrightarrow>
      pd_grid pd' = pd_grid pd \<and> pd_position pd' = pd_position pd) \<and>
   (CircularDetector_update_data cd field' = Inr cd' \<longrightarrow>
      cd_grid cd' = cd_grid cd \<and> cd_position cd' = cd_position cd \<and>
      cd_radius cd' = cd_radius cd \<and> cd_object_idx cd' = cd_object_idx cd \<and>
      cd_object_coordinate_index cd' = cd_object_coordinate_index cd \<and>
      cd_angle_list cd' = cd_angle_list cd) \<and>
   snd (PointDetector_plot_data pd) = pd \<and>
   snd (PointDetector_add_to_ax pd ax) = pd \<and>
   (CircularDetector_plot_data cd s = Inr (scene, cd'') \<longrightarrow> cd'' = cd) \<and>
   snd (CircularDetector_plot cd) = cd \<and>
   snd (CircularDetector_add_to_ax cd ax') = cd"
  using point_update_frame [of pd field pd'] circular_update_frame [of cd field' cd']
    circular_plot_data_frame [of cd s scene cd'']
  by (simp add: readers_frame)


theorem C7_witness:
  "PointDetector_update_data pd_example (ramp_field 2 3) = Inr (pd_example\<lparr>pd_data := [5, 14]\<rparr>) \<and>
   pd_position (pd_example\<lparr>pd_data := [5, 14]\<rparr>) = pd_position pd_example \<and>
   CircularDetector_update_data ring3 wave_field = Inr ring3_updated \<and>
   cd_object_idx ring3_updated = cd_object_idx ring3 \<and>
   cd_angle_list ring3_updated = cd_angle_list ring3 \<and>
   CircularDetector_plot_data ring3_updated (Index (- 1)) =
     Inr ([AddScatter (cd_angle_list ring3) (Scalar 26)], ring3_updated)"
proof -
  note a = C7_only_update_data_changes_data
    [of pd_example "ramp_field 2 3" "pd_example\<lparr>pd_data := [5, 14]\<rparr>"
        ring3 wave_field ring3_updated "[]" "Index (- 1)" "[]" ring3 "[]"]
  note b = C7_only_update_data_changes_data
    [of pd_example "ramp_field 2 3" "pd_example\<lparr>pd_data := [5, 14]\<rparr>"
        ring3_updated wave_field ring3_updated "[]" "Index (- 1)"
        "[AddScatter (cd_angle_list ring3) (Scalar 26)]" ring3_updated "[]"]
  show ?thesis
    using a b pd_example_update ring3_update_wave ring3_updated_plot_index by simp
qed



text \<open>
  C9. Immediately after construction, before any \<open>update_data\<close>, the data of a
  PointDetector is an all-zero sequence whose length is the Grid's \<open>n_steps\<close>.
\<close>

theorem C9_point_data_initially_zero:
  "PointDetector_post_init g position = Inr d \<Longrightarrow>
     length (pd_data d) = n_steps g \<and> (\<forall>t < n_steps g. pd_data d ! t = 0)"
  by (auto simp: PointDetector_post_init_def np_zeros_def split: sum.splits)

theorem C9_witness:
  "PointDetector_post_init (square_grid 3) (Num 1, Num 2) = Inr pd_example \<and>
   length (pd_data pd_example) = n_steps (square_grid 3) \<and>
   pd_data pd_example ! 0 = 0 \<and> pd_data pd_example ! 1 = 0 \<and> pd_data pd_example ! 2 = 0"
proof -
  have h: "PointDetector_post_init (square_grid 3) (Num 1, Num 2) = Inr pd_example"
    by (rule pd_example_init)
  show ?thesis
    using h C9_point_data_initially_zero [OF h] by (simp add: square_grid_members)
qed

text \<open>
  C10. A CircularDetector leaves construction with \<open>data\<close> unset: reading it, as
  \<open>plot_data\<close> does, raises AttributeError whatever the selection.
\<close>

theorem C10_circular_data_unset_after_construction:
  "CircularDetector_post_init g position radius = Inr d \<Longrightarrow>
     cd_data d = None \<and> CircularDetector_plot_data d s = Inl AttributeError"
  by (auto simp: CircularDetector_post_init_def CircularDetector_plot_data_def
           split: sum.splits prod.splits)


theorem C10_witness:
  "CircularDetector_post_init (square_grid 3) (Num 1, Num 1) 1 = Inr ring3 \<and>
   cd_data ring3 = None \<and> CircularDetector_plot_data ring3 (Index (- 1)) = Inl AttributeError"
proof -
  have h: "CircularDetector_post_init (square_grid 3) (Num 1, Num 1) 1 = Inr ring3"
    by (rule ring3_init)
  show ?thesis
    using h C10_circular_data_unset_after_construction [OF h, of "Index (- 1)"] by simp
qed

end
